theory Spec2Isabelle
  imports Complex_Main
begin

section \<open>Python values used by the trainer\<close>

text \<open>
  A Python float is either a finite number or one of the three special values.  Finite
  floats are a subset of the reals and compare as reals do, so a finite float is carried
  by the real number it denotes.

  Python adds and subtracts two floats by rounding the exact sum or difference to the
  nearest float.  The function that rounds a real number to a float is a parameter
  \<open>fl\<close> of the model: the float sum of \<open>a\<close> and \<open>b\<close> is \<open>fl (a + b)\<close>, their float
  difference \<open>fl (a - b)\<close>.  What a theorem needs to know of \<open>fl\<close> it states.
\<close>

datatype pyfloat = Finite real | PosInf | NegInf | NaN

text \<open>\<^verbatim>\<open>math.isfinite(x)\<close>: false for both infinities and for NaN.\<close>

fun isfinite :: "pyfloat \<Rightarrow> bool" where
  "isfinite (Finite x) = True"
| "isfinite PosInf = False"
| "isfinite NegInf = False"
| "isfinite NaN = False"

text \<open>\<^verbatim>\<open>a >= b\<close> on floats: every comparison with NaN is false.\<close>

fun float_ge :: "pyfloat \<Rightarrow> pyfloat \<Rightarrow> bool" where
  "float_ge NaN b = False"
| "float_ge a NaN = False"
| "float_ge PosInf b = True"
| "float_ge a NegInf = True"
| "float_ge (Finite x) (Finite y) = (y \<le> x)"
| "float_ge (Finite x) PosInf = False"
| "float_ge NegInf b = False"

text \<open>An exception is identified by its name; \<^verbatim>\<open>sys.exit(n)\<close> raises SystemExit.\<close>

type_synonym exn = string

datatype error = SystemExit int | Raised exn

section \<open>The trainer's data\<close>

text \<open>
  \<^verbatim>\<open>TrainingState\<close> (train/training_state.py) is not among the source files; the record
  holds the fields that trainer.py reads and writes, and the \<open>converged\<close> flag that
  \<^verbatim>\<open>converged_success()\<close> is about.
\<close>

record training_state =
  epoch :: int
  num_trained_samples :: int
  pure_compute_time :: real
  no_eval_time :: real
  eval_mAP :: pyfloat
  converged :: bool
  end_training :: bool

text \<open>The fields of \<^verbatim>\<open>self.config\<close> that trainer.py reads.\<close>

record config =
  device :: string
  distributed :: bool
  log_freq :: int
  target_mAP :: pyfloat
  max_epoch :: int

text \<open>
  The model, the optimizer, the two learning-rate schedulers, the evaluator and standard
  output belong to the framework.  Every call that acts on one of them is recorded, in
  program order, as an event; an event stands for a call that has returned.
\<close>

datatype event =
    SetNumThreads
  | InitPrint
  | CreateModel
  | ModelToDevice
  | ConvertModel
  | ModelToFp16
  | ModelToDdp
  | CreateOptimizer
  | CreateScheduler
  | SetEpoch int
  | ModelTrain
  | WarmupCreate int real
  | Forward
  | ReduceDict
  | PrintLoss pyfloat
  | PrintLossDict "(string \<times> pyfloat) list"
  | Backward
  | WarmupStep
  | LrSchedulerStep
  | GetCocoApi
  | NewEvaluator
  | ModelEval
  | CudaSynchronize
  | EvalForward
  | EvaluatorUpdate
  | LoggerSynchronize
  | PrintAveragedStats
  | EvaluatorSynchronize
  | Accumulate
  | Summarize
  | PrintMAP pyfloat
  | PrintConverged pyfloat pyfloat

text \<open>
  The \<^verbatim>\<open>Trainer\<close> object.  \<open>evaluator\<close> is \<^verbatim>\<open>self.evaluator.coco_eval['bbox'].stats.tolist()\<close>,
  the only part of the evaluator that trainer.py reads.
\<close>

record trainer =
  config :: config
  training_state :: training_state
  evaluator :: "pyfloat list"
  trace :: "event list"

text \<open>
  What one pass of the training loop meets: whether fetching the batch and moving it to
  the device raises, whether the forward pass raises, whether \<^verbatim>\<open>reduce_dict\<close> raises, the
  reduced loss dictionary and the value of \<^verbatim>\<open>losses_reduced.item()\<close>, whether the backward
  pass raises, and the two readings of \<^verbatim>\<open>time.time()\<close> (lines 81 and 105).
\<close>

record train_batch =
  load_raises :: "exn option"
  forward_raises :: "exn option"
  reduce_raises :: "exn option"
  loss_dict_reduced :: "(string \<times> pyfloat) list"
  loss_value :: pyfloat
  backward_raises :: "exn option"
  pure_compute_start_time :: real
  pure_compute_end_time :: real

text \<open>
  The training data loader: its batches (\<^verbatim>\<open>len(data_loader)\<close> is their number),
  \<^verbatim>\<open>len(data_loader.dataset)\<close>, and the readings of \<^verbatim>\<open>time.time()\<close> at lines 60 and 110.
\<close>

record train_dataloader =
  batches :: "train_batch list"
  dataset_len :: nat
  noeval_start_time :: real
  noeval_end_time :: real

record eval_batch =
  eval_load_raises :: "exn option"
  eval_forward_raises :: "exn option"

text \<open>
  The evaluation data loader, with what the two \<^verbatim>\<open>synchronize_between_processes\<close> calls
  do and the bbox statistics that \<^verbatim>\<open>summarize()\<close> leaves in the evaluator.
\<close>

record eval_dataloader =
  eval_batches :: "eval_batch list"
  logger_sync_raises :: "exn option"
  evaluator_sync_raises :: "exn option"
  bbox_stats :: "pyfloat list"

type_synonym result = "(error \<times> trainer) + trainer"

text \<open>
  A call either returns the trainer (\<open>Inr\<close>) or is left by an exception (\<open>Inl\<close>), which
  carries the trainer as it was when the exception was raised.
\<close>

definition emit :: "event \<Rightarrow> trainer \<Rightarrow> trainer" where
  "emit e self = self\<lparr>trace := trace self @ [e]\<rparr>"

definition final :: "result \<Rightarrow> trainer" where
  "final r = (case r of Inl (e, self) \<Rightarrow> self | Inr self \<Rightarrow> self)"

section \<open>Trainer.init\<close>

definition init :: "trainer \<Rightarrow> trainer" where
  "init self =
     self\<lparr>trace := trace self @
        [SetNumThreads, InitPrint, CreateModel, ModelToDevice, ConvertModel, ModelToFp16,
         ModelToDdp, CreateOptimizer, CreateScheduler]\<rparr>"

section \<open>Trainer.evaluate\<close>

definition eval_step :: "eval_batch \<Rightarrow> trainer \<Rightarrow> result" where
  "eval_step b self =
     (case eval_load_raises b of
        Some e \<Rightarrow> Inl (Raised e, self)
      | None \<Rightarrow>
          (let s1 = emit CudaSynchronize self in
           case eval_forward_raises b of
             Some e \<Rightarrow> Inl (Raised e, s1)
           | None \<Rightarrow> Inr (emit EvaluatorUpdate (emit EvalForward s1))))"

fun eval_loop :: "eval_batch list \<Rightarrow> trainer \<Rightarrow> result" where
  "eval_loop [] self = Inr self"
| "eval_loop (b # bs) self =
     (case eval_step b self of
        Inl err \<Rightarrow> Inl err
      | Inr self' \<Rightarrow> eval_loop bs self')"

definition evaluate :: "trainer \<Rightarrow> eval_dataloader \<Rightarrow> result" where
  "evaluate self data_loader =
     (let s1 = emit GetCocoApi self;
          s2 = emit NewEvaluator (s1\<lparr>evaluator := []\<rparr>);
          s3 = emit ModelEval s2
      in case eval_loop (eval_batches data_loader) s3 of
           Inl err \<Rightarrow> Inl err
         | Inr s4 \<Rightarrow>
             (case logger_sync_raises data_loader of
                Some e \<Rightarrow> Inl (Raised e, s4)
              | None \<Rightarrow>
                  (let s5 = emit PrintAveragedStats (emit LoggerSynchronize s4) in
                   case evaluator_sync_raises data_loader of
                     Some e \<Rightarrow> Inl (Raised e, s5)
                   | None \<Rightarrow>
                       (let s6 = emit Accumulate (emit EvaluatorSynchronize s5)
                        in Inr (emit Summarize (s6\<lparr>evaluator := bbox_stats data_loader\<rparr>))))))"

section \<open>Trainer.train_one_epoch\<close>

text \<open>
  Modelled from the spec: \<^verbatim>\<open>TrainingState.converged_success\<close> is defined in
  train/training_state.py, which is not among the source files.  The spec says that the
  trainer "mark[s] the run converged": the method sets the converged flag.  The spec does
  not say whether the method writes anything else; a theorem about the end-of-training
  flag below therefore treats the method as unknown and does not use this definition.
\<close>

definition converged_success :: "training_state \<Rightarrow> training_state" where
  "converged_success state = state\<lparr>converged := True\<rparr>"

text \<open>
  The body of the loop over the mini-batches (lines 77 to 106).  \<open>lr_scheduler\<close> is the
  local variable of that name: \<open>None\<close>, or the warm-up scheduler with its two parameters.
\<close>

definition train_step ::
    "(real \<Rightarrow> real) \<Rightarrow> (int \<times> real) option \<Rightarrow> train_batch \<Rightarrow> trainer \<Rightarrow> result" where
  "train_step fl lr_scheduler b self =
     (case load_raises b of
        Some e \<Rightarrow> Inl (Raised e, self)
      | None \<Rightarrow>
     (case forward_raises b of
        Some e \<Rightarrow> Inl (Raised e, self)
      | None \<Rightarrow>
     (let s1 = emit Forward self in
      case reduce_raises b of
        Some e \<Rightarrow> Inl (Raised e, s1)
      | None \<Rightarrow>
     (let s2 = emit ReduceDict s1 in
      if \<not> isfinite (loss_value b) then
        Inl (SystemExit 1,
             emit (PrintLossDict (loss_dict_reduced b)) (emit (PrintLoss (loss_value b)) s2))
      else
     (case backward_raises b of
        Some e \<Rightarrow> Inl (Raised e, s2)
      | None \<Rightarrow>
     (let s3 = emit Backward s2;
          s4 = (case lr_scheduler of None \<Rightarrow> s3 | Some w \<Rightarrow> emit WarmupStep s3)
      in Inr (s4\<lparr>training_state := (training_state s4)
                \<lparr>pure_compute_time := fl (pure_compute_time (training_state s4)
                     + fl (pure_compute_end_time b - pure_compute_start_time b))\<rparr>\<rparr>)))))))"

fun train_loop ::
    "(real \<Rightarrow> real) \<Rightarrow> (int \<times> real) option \<Rightarrow> train_batch list \<Rightarrow> trainer \<Rightarrow> result" where
  "train_loop fl lr_scheduler [] self = Inr self"
| "train_loop fl lr_scheduler (b # bs) self =
     (case train_step fl lr_scheduler b self of
        Inl err \<Rightarrow> Inl err
      | Inr self' \<Rightarrow> train_loop fl lr_scheduler bs self')"

text \<open>Lines 66 to 72: the warm-up scheduler exists in epoch 0 only.\<close>

definition warmup_setup :: "int \<Rightarrow> train_dataloader \<Rightarrow> (int \<times> real) option" where
  "warmup_setup ep data_loader =
     (if ep = 0 then
        (let warmup_factor = 1 / 1000;
             warmup_iters = min 1000 (int (length (batches data_loader)) - 1)
         in Some (warmup_iters, warmup_factor))
      else None)"

text \<open>Lines 115 to 124, entered with the first bbox statistic \<open>m\<close>.\<close>

definition check_convergence :: "config \<Rightarrow> int \<Rightarrow> pyfloat \<Rightarrow> trainer \<Rightarrow> trainer" where
  "check_convergence cfg ep m self =
     (let s1 = emit (PrintMAP m) (self\<lparr>training_state := (training_state self)\<lparr>eval_mAP := m\<rparr>\<rparr>);
          s2 = (if float_ge (eval_mAP (training_state s1)) (target_mAP cfg) then
                  (let p = emit (PrintConverged (eval_mAP (training_state s1)) (target_mAP cfg)) s1
                   in p\<lparr>training_state := converged_success (training_state p)\<rparr>)
                else s1)
      in if max_epoch cfg \<le> ep then
           s2\<lparr>training_state := (training_state s2)\<lparr>end_training := True\<rparr>\<rparr>
         else s2)"

definition train_one_epoch ::
    "(real \<Rightarrow> real) \<Rightarrow> trainer \<Rightarrow> train_dataloader \<Rightarrow> eval_dataloader \<Rightarrow> result" where
  "train_one_epoch fl self train_dataloader eval_dataloader =
     (let cfg = config self;
          ep = epoch (training_state self);
          s1 = (if distributed (config self) then emit (SetEpoch ep) self else self);
          s2 = emit ModelTrain s1;
          lr_scheduler = warmup_setup ep train_dataloader;
          s3 = (case lr_scheduler of
                  None \<Rightarrow> s2
                | Some (warmup_iters, warmup_factor) \<Rightarrow>
                    emit (WarmupCreate warmup_iters warmup_factor) s2)
      in case train_loop fl lr_scheduler (batches train_dataloader) s3 of
           Inl err \<Rightarrow> Inl err
         | Inr s4 \<Rightarrow>
             (let s5 = emit LrSchedulerStep s4;
                  s6 = s5\<lparr>training_state := (training_state s5)
                         \<lparr>num_trained_samples := num_trained_samples (training_state s5)
                              + int (dataset_len train_dataloader)\<rparr>\<rparr>;
                  s7 = s6\<lparr>training_state := (training_state s6)
                         \<lparr>no_eval_time := fl (no_eval_time (training_state s6)
                              + fl (noeval_end_time train_dataloader
                                    - noeval_start_time train_dataloader))\<rparr>\<rparr>
              in case evaluate s7 eval_dataloader of
                   Inl err \<Rightarrow> Inl err
                 | Inr s8 \<Rightarrow>
                     (case evaluator s8 of
                        [] \<Rightarrow> Inl (Raised ''IndexError'', s8)
                      | m # rest \<Rightarrow> Inr (check_convergence cfg ep m s8))))"

section \<open>The GPT-3 configuration file\<close>

text \<open>The step counts of config\_TP1PP1SH2SP8A10080Gx1x8.py (lines 10 to 16).\<close>

definition max_steps :: int where
  "max_steps = 100"

definition save_steps :: int where
  "save_steps = 10000"

definition eval_steps :: int where
  "eval_steps = 5000000"

definition warmup_steps :: int where
  "warmup_steps = 188"

definition decay_steps :: int where
  "decay_steps = 130 * 1024 * 1024"

section \<open>Runs without exceptions, in closed form\<close>

text \<open>
  A training batch is processed to the end of the loop body when nothing raises and the
  reduced loss is finite; an evaluation batch when nothing raises.
\<close>

definition batch_ok :: "train_batch \<Rightarrow> bool" where
  "batch_ok b =
     (load_raises b = None \<and> forward_raises b = None \<and> reduce_raises b = None \<and>
      isfinite (loss_value b) \<and> backward_raises b = None)"

definition eval_batch_ok :: "eval_batch \<Rightarrow> bool" where
  "eval_batch_ok b = (eval_load_raises b = None \<and> eval_forward_raises b = None)"

definition eval_ok :: "eval_dataloader \<Rightarrow> bool" where
  "eval_ok data_loader =
     (list_all eval_batch_ok (eval_batches data_loader) \<and>
      logger_sync_raises data_loader = None \<and> evaluator_sync_raises data_loader = None)"

text \<open>The events of one loop body, of the lines before the loop, and of an evaluation.\<close>

abbreviation step_events :: "(int \<times> real) option \<Rightarrow> event list" where
  "step_events lr \<equiv>
     [Forward, ReduceDict, Backward] @ (case lr of None \<Rightarrow> [] | Some w \<Rightarrow> [WarmupStep])"

abbreviation eval_step_events :: "event list" where
  "eval_step_events \<equiv> [CudaSynchronize, EvalForward, EvaluatorUpdate]"

abbreviation eval_events :: "eval_dataloader \<Rightarrow> event list" where
  "eval_events data_loader \<equiv>
     [GetCocoApi, NewEvaluator, ModelEval]
     @ concat (map (\<lambda>b. eval_step_events) (eval_batches data_loader))
     @ [LoggerSynchronize, PrintAveragedStats, EvaluatorSynchronize, Accumulate, Summarize]"

abbreviation prologue_events :: "trainer \<Rightarrow> train_dataloader \<Rightarrow> event list" where
  "prologue_events self data_loader \<equiv>
     (if distributed (config self) then [SetEpoch (epoch (training_state self))] else [])
     @ [ModelTrain]
     @ (case warmup_setup (epoch (training_state self)) data_loader of
          None \<Rightarrow> []
        | Some (warmup_iters, warmup_factor) \<Rightarrow> [WarmupCreate warmup_iters warmup_factor])"

text \<open>
  The compute time after the loop body has run on the batches \<open>bs\<close>, one float
  subtraction and one float addition for each, starting from \<open>t\<close>.
\<close>

fun compute_time :: "(real \<Rightarrow> real) \<Rightarrow> real \<Rightarrow> train_batch list \<Rightarrow> real" where
  "compute_time fl t [] = t"
| "compute_time fl t (b # bs) =
     compute_time fl (fl (t + fl (pure_compute_end_time b - pure_compute_start_time b))) bs"

text \<open>
  The trainer at line 115 of an epoch in which nothing was raised; lemma
  \<open>train_one_epoch_ok\<close> below derives it from \<open>train_one_epoch\<close>.
\<close>

definition trained ::
    "(real \<Rightarrow> real) \<Rightarrow> trainer \<Rightarrow> train_dataloader \<Rightarrow> eval_dataloader \<Rightarrow> trainer" where
  "trained fl self tdl edl =
     self\<lparr>training_state := (training_state self)
            \<lparr>pure_compute_time :=
               compute_time fl (pure_compute_time (training_state self)) (batches tdl),
             num_trained_samples := num_trained_samples (training_state self)
               + int (dataset_len tdl),
             no_eval_time := fl (no_eval_time (training_state self)
               + fl (noeval_end_time tdl - noeval_start_time tdl))\<rparr>,
          trace := trace self @ prologue_events self tdl
              @ concat (map (\<lambda>b. step_events (warmup_setup (epoch (training_state self)) tdl))
                          (batches tdl))
              @ [LrSchedulerStep] @ eval_events edl,
          evaluator := bbox_stats edl\<rparr>"

text \<open>
  What a call may change besides the evaluator and the three accumulators of the training
  state: nothing of the configuration, of the epoch counter, of the metric or of the two
  flags, and the trace only grows.  \<open>warm\<close> says whether steps of the warm-up scheduler
  may be among the new events; the warm-up scheduler is never created.
\<close>

definition advances :: "bool \<Rightarrow> trainer \<Rightarrow> trainer \<Rightarrow> bool" where
  "advances warm s s' =
     (config s' = config s \<and>
      epoch (training_state s') = epoch (training_state s) \<and>
      eval_mAP (training_state s') = eval_mAP (training_state s) \<and>
      converged (training_state s') = converged (training_state s) \<and>
      end_training (training_state s') = end_training (training_state s) \<and>
      (\<exists>new. trace s' = trace s @ new \<and> (\<forall>i f. WarmupCreate i f \<notin> set new) \<and>
         (\<not> warm \<longrightarrow> WarmupStep \<notin> set new)))"

text \<open>
  The first call of the loop body that fails on a batch raises \<open>e\<close>: the calls are made
  in the order load, forward, reduce, backward, and the backward pass is reached only with
  a finite loss.  Likewise for a batch of the evaluation loop.
\<close>

definition batch_raises :: "train_batch \<Rightarrow> exn \<Rightarrow> bool" where
  "batch_raises b e =
     (load_raises b = Some e \<or>
      load_raises b = None \<and>
        (forward_raises b = Some e \<or>
         forward_raises b = None \<and>
           (reduce_raises b = Some e \<or>
            reduce_raises b = None \<and> isfinite (loss_value b) \<and> backward_raises b = Some e)))"

definition eval_batch_raises :: "eval_batch \<Rightarrow> exn \<Rightarrow> bool" where
  "eval_batch_raises b e =
     (eval_load_raises b = Some e \<or>
      eval_load_raises b = None \<and> eval_forward_raises b = Some e)"

section \<open>Concrete runs\<close>

text \<open>
  A trainer before its first epoch, with a target of 0.35 and 26 epochs at most; the same
  trainer in epoch 26, once with both flags set and once with none; two batches that
  train normally and one whose loss is NaN; a loader of the two good batches, whose clock reads 9, 10, 11, 12, 13 and
  14, and the same loader with a clock that read 20 at line 60 and was set back before
  the first batch; evaluations that report 0.36 and 0.1.  All time stamps of these runs,
  their differences and the sums of those are small integers, which are floats, so that
  rounding leaves them as they are: the runs are evaluated with \<open>no_rounding\<close>.
\<close>

definition no_rounding :: "real \<Rightarrow> real" where
  "no_rounding x = x"

definition trainer0 :: trainer where
  "trainer0 =
     \<lparr>config = \<lparr>device = ''cuda'', distributed = True, log_freq = 20,
                 target_mAP = Finite 0.35, max_epoch = 26\<rparr>,
      training_state = \<lparr>epoch = 0, num_trained_samples = 0, pure_compute_time = 0,
                         no_eval_time = 0, eval_mAP = Finite 0, converged = False,
                         end_training = False\<rparr>,
      evaluator = [], trace = []\<rparr>"

definition batch_fine :: train_batch where
  "batch_fine =
     \<lparr>load_raises = None, forward_raises = None, reduce_raises = None,
      loss_dict_reduced = [(''classification'', Finite 0.7), (''bbox_regression'', Finite 0.5)],
      loss_value = Finite 1.2, backward_raises = None,
      pure_compute_start_time = 10, pure_compute_end_time = 11\<rparr>"

definition batch_nan :: train_batch where
  "batch_nan = batch_fine\<lparr>loss_dict_reduced := [(''classification'', NaN)], loss_value := NaN\<rparr>"

definition batch_fine2 :: train_batch where
  "batch_fine2 = batch_fine\<lparr>pure_compute_start_time := 12, pure_compute_end_time := 13\<rparr>"

definition loader0 :: train_dataloader where
  "loader0 = \<lparr>batches = [batch_fine, batch_fine2], dataset_len = 4,
              noeval_start_time = 9, noeval_end_time = 14\<rparr>"

definition eval_loader0 :: eval_dataloader where
  "eval_loader0 =
     \<lparr>eval_batches = [\<lparr>eval_load_raises = None, eval_forward_raises = None\<rparr>],
      logger_sync_raises = None, evaluator_sync_raises = None,
      bbox_stats = [Finite 0.36, Finite 0.5]\<rparr>"

definition trainer_late :: trainer where
  "trainer_late =
     trainer0\<lparr>training_state := (training_state trainer0)
                 \<lparr>epoch := 26, converged := True, end_training := True\<rparr>\<rparr>"


definition eval_loader_low :: eval_dataloader where
  "eval_loader_low = eval_loader0\<lparr>bbox_stats := [Finite 0.1]\<rparr>"

definition loader_clock_back :: train_dataloader where
  "loader_clock_back = loader0\<lparr>noeval_start_time := 20\<rparr>"

text \<open>
  A loader whose second batch has a NaN loss, one whose second batch fails in the backward
  pass, and an evaluation whose evaluator fails to synchronise.
\<close>

definition loader_nan :: train_dataloader where
  "loader_nan = loader0\<lparr>batches := [batch_fine, batch_nan, batch_fine]\<rparr>"

definition batch_oom :: train_batch where
  "batch_oom = batch_fine\<lparr>backward_raises := Some ''OutOfMemoryError''\<rparr>"

definition loader_oom :: train_dataloader where
  "loader_oom = loader0\<lparr>batches := [batch_fine, batch_oom, batch_fine]\<rparr>"

definition eval_loader_sync_fails :: eval_dataloader where
  "eval_loader_sync_fails = eval_loader0\<lparr>evaluator_sync_raises := Some ''DistBackendError''\<rparr>"

section \<open>The loops in closed form\<close>

lemma train_step_ok:
  "batch_ok b \<Longrightarrow>
   train_step fl lr b self =
     Inr (self\<lparr>trace := trace self @ step_events lr,
            training_state := (training_state self)
              \<lparr>pure_compute_time := fl (pure_compute_time (training_state self)
                 + fl (pure_compute_end_time b - pure_compute_start_time b))\<rparr>\<rparr>)"
  by (cases lr) (simp_all add: batch_ok_def train_step_def emit_def Let_def)

lemma train_step_Inr_ok: "train_step fl lr b self = Inr self' \<Longrightarrow> batch_ok b"
  by (auto simp: batch_ok_def train_step_def Let_def split: option.splits if_splits)

lemma train_loop_ok:
  "list_all batch_ok bs \<Longrightarrow>
   train_loop fl lr bs self =
     Inr (self\<lparr>trace := trace self @ concat (map (\<lambda>b. step_events lr) bs),
            training_state := (training_state self)
              \<lparr>pure_compute_time := compute_time fl (pure_compute_time (training_state self)) bs\<rparr>\<rparr>)"
proof (induction bs arbitrary: self)
  case Nil
  then show ?case by simp
next
  case (Cons b bs)
  then show ?case by (simp add: train_step_ok)
qed

lemma compute_time_ge:
  assumes mono: "\<forall>x y. x \<le> y \<longrightarrow> fl x \<le> fl y" and zero: "fl 0 = 0"
    and idem: "\<forall>x. fl (fl x) = fl x" and "fl t = t"
    and "\<forall>b\<in>set bs. pure_compute_start_time b \<le> pure_compute_end_time b"
  shows "t \<le> compute_time fl t bs"
  using assms(4,5)
proof (induction bs arbitrary: t)
  case Nil
  show ?case by simp
next
  case (Cons b bs)
  let ?d = "fl (pure_compute_end_time b - pure_compute_start_time b)"
  from Cons.prems(2) have "0 \<le> pure_compute_end_time b - pure_compute_start_time b" by simp
  with mono zero have "0 \<le> ?d" by metis
  then have "t \<le> t + ?d" by simp
  with mono Cons.prems(1) have step: "t \<le> fl (t + ?d)" by metis
  from idem have "fl (fl (t + ?d)) = fl (t + ?d)" by simp
  from Cons.IH [OF this] Cons.prems(2) have "fl (t + ?d) \<le> compute_time fl (fl (t + ?d)) bs"
    by simp
  with step show ?case by simp
qed

lemma train_loop_Inr_ok: "train_loop fl lr bs self = Inr self' \<Longrightarrow> list_all batch_ok bs"
proof (induction bs arbitrary: self)
  case Nil
  then show ?case by simp
next
  case (Cons b bs)
  then show ?case by (auto split: sum.splits dest: train_step_Inr_ok)
qed

lemma train_loop_append:
  "train_loop fl lr (xs @ ys) self =
     (case train_loop fl lr xs self of Inl err \<Rightarrow> Inl err | Inr s \<Rightarrow> train_loop fl lr ys s)"
  by (induction xs arbitrary: self) (simp_all split: sum.splits)

lemma eval_step_ok:
  "eval_batch_ok b \<Longrightarrow> eval_step b self = Inr (self\<lparr>trace := trace self @ eval_step_events\<rparr>)"
  by (simp add: eval_batch_ok_def eval_step_def emit_def Let_def)

lemma eval_step_Inr_ok: "eval_step b self = Inr self' \<Longrightarrow> eval_batch_ok b"
  by (auto simp: eval_batch_ok_def eval_step_def Let_def split: option.splits)

lemma eval_loop_ok:
  "list_all eval_batch_ok bs \<Longrightarrow>
   eval_loop bs self = Inr (self\<lparr>trace := trace self @ concat (map (\<lambda>b. eval_step_events) bs)\<rparr>)"
proof (induction bs arbitrary: self)
  case Nil
  then show ?case by simp
next
  case (Cons b bs)
  then show ?case by (simp add: eval_step_ok)
qed

lemma eval_loop_Inr_ok: "eval_loop bs self = Inr self' \<Longrightarrow> list_all eval_batch_ok bs"
proof (induction bs arbitrary: self)
  case Nil
  then show ?case by simp
next
  case (Cons b bs)
  then show ?case by (auto split: sum.splits dest: eval_step_Inr_ok)
qed

lemma eval_loop_append:
  "eval_loop (xs @ ys) self =
     (case eval_loop xs self of Inl err \<Rightarrow> Inl err | Inr s \<Rightarrow> eval_loop ys s)"
  by (induction xs arbitrary: self) (simp_all split: sum.splits)

lemma evaluate_ok:
  "eval_ok data_loader \<Longrightarrow>
   evaluate self data_loader =
     Inr (self\<lparr>trace := trace self @ eval_events data_loader,
            evaluator := bbox_stats data_loader\<rparr>)"
  by (simp add: eval_ok_def evaluate_def eval_loop_ok emit_def Let_def)

lemma evaluate_Inr_ok: "evaluate self data_loader = Inr self' \<Longrightarrow> eval_ok data_loader"
  by (auto simp: eval_ok_def evaluate_def Let_def split: sum.splits option.splits
           dest: eval_loop_Inr_ok)

lemma evaluate_Inr:
  "evaluate self data_loader = Inr self' \<Longrightarrow>
   eval_ok data_loader \<and> evaluator self' = bbox_stats data_loader"
proof -
  assume r: "evaluate self data_loader = Inr self'"
  then have ok: "eval_ok data_loader" by (rule evaluate_Inr_ok)
  from r evaluate_ok [OF ok, of self] show ?thesis using ok by auto
qed

lemma train_one_epoch_ok:
  assumes "list_all batch_ok (batches tdl)" and "eval_ok edl" and "bbox_stats edl = m # rest"
  shows "train_one_epoch fl self tdl edl =
           Inr (check_convergence (config self) (epoch (training_state self)) m
                  (trained fl self tdl edl))"
  using assms
  by (cases "warmup_setup (epoch (training_state self)) tdl")
     (auto simp add: train_one_epoch_def train_loop_ok evaluate_ok emit_def Let_def trained_def)

lemma train_one_epoch_Inr:
  assumes "train_one_epoch fl self tdl edl = Inr self'"
  shows "list_all batch_ok (batches tdl) \<and> eval_ok edl \<and> bbox_stats edl \<noteq> []"
  using assms
  by (cases "warmup_setup (epoch (training_state self)) tdl")
     (auto simp add: train_one_epoch_def Let_def
         split: sum.splits list.splits dest!: train_loop_Inr_ok evaluate_Inr)

section \<open>The convergence check\<close>

lemma check_convergence_state:
  "training_state (check_convergence cfg ep m self) =
     (training_state self)
       \<lparr>eval_mAP := m,
        converged := converged (training_state self) \<or> float_ge m (target_mAP cfg),
        end_training := end_training (training_state self) \<or> max_epoch cfg \<le> ep\<rparr>"
  by (simp add: check_convergence_def converged_success_def emit_def Let_def)


lemma check_convergence_frame:
  "config (check_convergence cfg ep m self) = config self"
  "evaluator (check_convergence cfg ep m self) = evaluator self"
  by (simp_all add: check_convergence_def converged_success_def emit_def Let_def)

lemma check_convergence_trace:
  "trace (check_convergence cfg ep m self) =
     trace self @ PrintMAP m #
       (if float_ge m (target_mAP cfg) then [PrintConverged m (target_mAP cfg)] else [])"
  by (simp add: check_convergence_def converged_success_def emit_def Let_def)

lemma train_one_epoch_returns:
  assumes "train_one_epoch fl self tdl edl = Inr self'"
  obtains m rest where "bbox_stats edl = m # rest"
    and "self' = check_convergence (config self) (epoch (training_state self)) m
                   (trained fl self tdl edl)"
proof -
  from train_one_epoch_Inr [OF assms]
  have ok: "list_all batch_ok (batches tdl)" "eval_ok edl" and ne: "bbox_stats edl \<noteq> []"
    by simp_all
  from ne obtain m rest where st: "bbox_stats edl = m # rest" by (cases "bbox_stats edl") auto
  from train_one_epoch_ok [OF ok st, where self = self and fl = fl] assms
  have "self' = check_convergence (config self) (epoch (training_state self)) m
                  (trained fl self tdl edl)" by simp
  with st that show thesis by blast
qed

lemma fixtures_ok:
  "list_all batch_ok (batches loader0)" "eval_ok eval_loader0"
  "bbox_stats eval_loader0 = Finite 0.36 # [Finite 0.5]"
  by (simp_all add: loader0_def eval_loader0_def batch_fine_def batch_fine2_def batch_ok_def eval_ok_def
        eval_batch_ok_def)

section \<open>What every call leaves unchanged\<close>

lemma advances_refl: "advances warm s s"
  unfolding advances_def by simp

lemma advances_trans:
  assumes "advances warm s s'" and "advances warm s' s''"
  shows "advances warm s s''"
proof -
  from assms(1) obtain new where 1: "trace s' = trace s @ new"
    "\<forall>i f. WarmupCreate i f \<notin> set new" "\<not> warm \<longrightarrow> WarmupStep \<notin> set new"
    unfolding advances_def by blast
  from assms(2) obtain new' where 2: "trace s'' = trace s' @ new'"
    "\<forall>i f. WarmupCreate i f \<notin> set new'" "\<not> warm \<longrightarrow> WarmupStep \<notin> set new'"
    unfolding advances_def by blast
  have "trace s'' = trace s @ (new @ new')" by (simp add: 1 2)
  moreover have "\<forall>i f. WarmupCreate i f \<notin> set (new @ new')" using 1 2 by simp
  moreover have "\<not> warm \<longrightarrow> WarmupStep \<notin> set (new @ new')" using 1 2 by simp
  ultimately have "\<exists>n. trace s'' = trace s @ n \<and> (\<forall>i f. WarmupCreate i f \<notin> set n) \<and>
      (\<not> warm \<longrightarrow> WarmupStep \<notin> set n)" by blast
  with assms show ?thesis unfolding advances_def by simp
qed

lemma advances_emit:
  assumes "\<And>i f. e \<noteq> WarmupCreate i f" and "\<not> warm \<Longrightarrow> e \<noteq> WarmupStep"
  shows "advances warm s (emit e s)"
  unfolding advances_def emit_def using assms by auto

lemma advances_weaken: "advances False s s' \<Longrightarrow> advances warm s s'"
  unfolding advances_def by auto

lemma advances_evaluator: "advances warm s (s\<lparr>evaluator := ev\<rparr>)"
  unfolding advances_def by simp

lemma advances_accumulators:
  "advances warm s
     (s\<lparr>training_state := (training_state s)
          \<lparr>num_trained_samples := n\<rparr>\<rparr>)"
  "advances warm s
     (s\<lparr>training_state := (training_state s)
          \<lparr>no_eval_time := t\<rparr>\<rparr>)"
  unfolding advances_def by simp_all

lemma train_step_advances: "advances (lr \<noteq> None) s (final (train_step fl lr b s))"
  unfolding advances_def train_step_def final_def emit_def Let_def
  by (auto split: option.splits)

lemma final_Inr [simp]: "final (Inr s) = s"
  by (simp add: final_def)

lemma final_Inl [simp]: "final (Inl (e, s)) = s"
  by (simp add: final_def)

lemma train_loop_advances: "advances (lr \<noteq> None) s (final (train_loop fl lr bs s))"
proof (induction bs arbitrary: s)
  case Nil
  show ?case by (simp add: advances_refl)
next
  case (Cons b bs)
  show ?case
  proof (cases "train_step fl lr b s")
    case (Inl err)
    with train_step_advances [where lr = lr and s = s and b = b and fl = fl] show ?thesis by simp
  next
    case (Inr s1)
    with train_step_advances [where lr = lr and s = s and b = b and fl = fl] have "advances (lr \<noteq> None) s s1" by simp
    from advances_trans [OF this Cons.IH [of s1]] Inr show ?thesis by simp
  qed
qed

lemma eval_step_advances: "advances False s (final (eval_step b s))"
  unfolding advances_def eval_step_def final_def emit_def Let_def
  by (auto split: option.splits)

lemma eval_loop_advances: "advances False s (final (eval_loop bs s))"
proof (induction bs arbitrary: s)
  case Nil
  show ?case by (simp add: advances_refl)
next
  case (Cons b bs)
  show ?case
  proof (cases "eval_step b s")
    case (Inl err)
    with eval_step_advances [of s b] show ?thesis by simp
  next
    case (Inr s1)
    with eval_step_advances [of s b] have "advances False s s1" by simp
    from advances_trans [OF this Cons.IH [of s1]] Inr show ?thesis by simp
  qed
qed

lemma evaluate_advances: "advances False s (final (evaluate s dl))"
proof -
  let ?s3 = "emit ModelEval (emit NewEvaluator ((emit GetCocoApi s)\<lparr>evaluator := []\<rparr>))"
  have a3: "advances False s ?s3"
    by (intro advances_trans [OF advances_emit advances_trans [OF advances_evaluator
          advances_trans [OF advances_emit advances_emit]]]) simp_all
  have a4: "advances False s (final (eval_loop (eval_batches dl) ?s3))"
    by (rule advances_trans [OF a3 eval_loop_advances])
  show ?thesis
  proof (cases "eval_loop (eval_batches dl) ?s3")
    case (Inl err)
    with a4 show ?thesis by (simp add: evaluate_def Let_def)
  next
    case (Inr s4)
    with a4 have s4: "advances False s s4" by simp
    let ?s5 = "emit PrintAveragedStats (emit LoggerSynchronize s4)"
    have a5: "advances False s ?s5"
      by (intro advances_trans [OF s4 advances_trans [OF advances_emit advances_emit]]) simp_all
    let ?s7 = "emit Summarize ((emit Accumulate (emit EvaluatorSynchronize ?s5))
                 \<lparr>evaluator := bbox_stats dl\<rparr>)"
    have a7: "advances False s ?s7"
      by (intro advances_trans [OF a5 advances_trans [OF advances_emit advances_trans
            [OF advances_emit advances_trans [OF advances_evaluator advances_emit]]]]) simp_all
    show ?thesis using Inr s4 a5 a7
      by (simp add: evaluate_def Let_def split: option.splits)
  qed
qed

lemma train_one_epoch_unfold:
  "train_one_epoch fl self tdl edl =
     (case train_loop fl (warmup_setup (epoch (training_state self)) tdl) (batches tdl)
             (self\<lparr>trace := trace self @ prologue_events self tdl\<rparr>) of
        Inl err \<Rightarrow> Inl err
      | Inr s4 \<Rightarrow>
          (let s5 = emit LrSchedulerStep s4;
               s6 = s5\<lparr>training_state := (training_state s5)
                      \<lparr>num_trained_samples := num_trained_samples (training_state s5)
                           + int (dataset_len tdl)\<rparr>\<rparr>;
               s7 = s6\<lparr>training_state := (training_state s6)
                      \<lparr>no_eval_time := fl (no_eval_time (training_state s6)
                           + fl (noeval_end_time tdl - noeval_start_time tdl))\<rparr>\<rparr>
           in case evaluate s7 edl of
                Inl err \<Rightarrow> Inl err
              | Inr s8 \<Rightarrow>
                  (case evaluator s8 of
                     [] \<Rightarrow> Inl (Raised ''IndexError'', s8)
                   | m # rest \<Rightarrow>
                       Inr (check_convergence (config self) (epoch (training_state self)) m s8))))"
  by (cases "warmup_setup (epoch (training_state self)) tdl")
     (auto simp add: train_one_epoch_def emit_def Let_def)

lemma train_one_epoch_outcome:
  "\<exists>s. advances (epoch (training_state self) = 0)
          (self\<lparr>trace := trace self @ prologue_events self tdl\<rparr>) s \<and>
        (final (train_one_epoch fl self tdl edl) = s \<or>
         (\<exists>m. final (train_one_epoch fl self tdl edl)
                = check_convergence (config self) (epoch (training_state self)) m s))"
proof -
  let ?ep = "epoch (training_state self)"
  let ?lr = "warmup_setup ?ep tdl"
  let ?w = "?ep = 0"
  let ?s3 = "self\<lparr>trace := trace self @ prologue_events self tdl\<rparr>"
  have lr: "(?lr \<noteq> None) = ?w"
    unfolding warmup_setup_def Let_def by (cases ?w) simp_all
  note unfold = train_one_epoch_unfold [of fl self tdl edl]
  have a: "advances ?w ?s3 (final (train_loop fl ?lr (batches tdl) ?s3))"
    using train_loop_advances [where lr = ?lr and s = ?s3 and bs = "batches tdl" and fl = fl] by (simp only: lr)
  show ?thesis
  proof (cases "train_loop fl ?lr (batches tdl) ?s3")
    case (Inl err)
    with a unfold show ?thesis by (cases err) auto
  next
    case (Inr s4)
    with a have a4: "advances ?w ?s3 s4" by simp
    let ?s5 = "emit LrSchedulerStep s4"
    let ?s6 = "?s5\<lparr>training_state := (training_state ?s5)
                 \<lparr>num_trained_samples := num_trained_samples (training_state ?s5)
                      + int (dataset_len tdl)\<rparr>\<rparr>"
    let ?s7 = "?s6\<lparr>training_state := (training_state ?s6)
                 \<lparr>no_eval_time := fl (no_eval_time (training_state ?s6)
                      + fl (noeval_end_time tdl - noeval_start_time tdl))\<rparr>\<rparr>"
    have a5: "advances ?w ?s3 ?s5"
      by (rule advances_trans [OF a4 advances_emit]) simp_all
    have a6: "advances ?w ?s3 ?s6"
      by (rule advances_trans [OF a5 advances_accumulators(1)])
    have a7: "advances ?w ?s3 ?s7"
      by (rule advances_trans [OF a6 advances_accumulators(2)])
    have a8: "advances ?w ?s3 (final (evaluate ?s7 edl))"
      by (rule advances_trans [OF a7 advances_weaken [OF evaluate_advances]])
    show ?thesis
    proof (cases "evaluate ?s7 edl")
      case (Inl err)
      with a8 unfold Inr show ?thesis by (cases err) (auto simp add: Let_def)
    next
      case r: (Inr s8)
      with a8 have a8': "advances ?w ?s3 s8" by simp
      show ?thesis
      proof (cases "evaluator s8")
        case Nil
        with a8' unfold Inr r show ?thesis by (auto simp add: Let_def)
      next
        case (Cons m rest)
        with a8' unfold Inr r show ?thesis by (auto simp add: Let_def)
      qed
    qed
  qed
qed

lemma fixtures_low_ok:
  "eval_ok eval_loader_low" "bbox_stats eval_loader_low = Finite 0.1 # []"
  by (simp_all add: eval_loader_low_def eval_loader0_def eval_ok_def eval_batch_ok_def)

section \<open>Counting events\<close>

lemma count_list_concat_const:
  "count_list (concat (map (\<lambda>b. xs) bs)) e = length bs * count_list xs e"
  by (induction bs) (simp_all add: algebra_simps)

lemma prologue_count:
  "count_list (prologue_events self tdl) Forward = 0"
  "count_list (prologue_events self tdl) Backward = 0"
  "count_list (prologue_events self tdl) WarmupStep = 0"
  "count_list (prologue_events self tdl) LrSchedulerStep = 0"
  by (simp_all split: option.splits)

lemma step_count:
  "count_list (step_events lr) Forward = 1"
  "count_list (step_events lr) Backward = 1"
  "count_list (step_events lr) WarmupStep = (if lr = None then 0 else 1)"
  "count_list (step_events lr) LrSchedulerStep = 0"
  by (simp_all split: option.splits)

section \<open>Calls that are left by an exception\<close>

lemma train_loop_prefix:
  assumes "list_all batch_ok pre"
  shows "train_loop fl lr (pre @ b # post) s =
     (case train_step fl lr b
             (s\<lparr>trace := trace s @ concat (map (\<lambda>b. step_events lr) pre),
                training_state := (training_state s)
                  \<lparr>pure_compute_time := compute_time fl (pure_compute_time (training_state s)) pre\<rparr>\<rparr>) of
        Inl err \<Rightarrow> Inl err
      | Inr s' \<Rightarrow> train_loop fl lr post s')"
  by (simp add: train_loop_append train_loop_ok [OF assms])

lemma train_one_epoch_loop_abort:
  assumes "batches tdl = pre @ b # post" and "list_all batch_ok pre"
    and "train_step fl (warmup_setup (epoch (training_state self)) tdl) b
           (self\<lparr>trace := trace self @ prologue_events self tdl
                     @ concat (map (\<lambda>b. step_events (warmup_setup (epoch (training_state self)) tdl)) pre),
                 training_state := (training_state self)
                   \<lparr>pure_compute_time := compute_time fl (pure_compute_time (training_state self)) pre\<rparr>\<rparr>)
         = Inl err"
  shows "train_one_epoch fl self tdl edl = Inl err"
  using assms(3)
  by (simp add: train_one_epoch_unfold assms(1) train_loop_prefix [OF assms(2)])

lemma train_step_nonfinite:
  assumes "load_raises b = None" "forward_raises b = None" "reduce_raises b = None"
    and "\<not> isfinite (loss_value b)"
  shows "train_step fl lr b s =
     Inl (SystemExit 1,
          s\<lparr>trace := trace s @ [Forward, ReduceDict, PrintLoss (loss_value b),
                                  PrintLossDict (loss_dict_reduced b)]\<rparr>)"
  using assms by (simp add: train_step_def emit_def Let_def)

lemma train_step_raises:
  "batch_raises b e \<Longrightarrow> \<exists>s'. train_step fl lr b s = Inl (Raised e, s')"
  unfolding batch_raises_def train_step_def Let_def by auto

lemma eval_step_raises:
  "eval_batch_raises b e \<Longrightarrow> \<exists>s'. eval_step b s = Inl (Raised e, s')"
  unfolding eval_batch_raises_def eval_step_def Let_def by auto

lemma eval_loop_prefix:
  assumes "list_all eval_batch_ok pre"
  shows "eval_loop (pre @ b # post) s =
     (case eval_step b (s\<lparr>trace := trace s @ concat (map (\<lambda>b. eval_step_events) pre)\<rparr>) of
        Inl err \<Rightarrow> Inl err
      | Inr s' \<Rightarrow> eval_loop post s')"
  by (simp add: eval_loop_append eval_loop_ok [OF assms])

lemma evaluate_batch_raises:
  assumes "eval_batches edl = epre @ eb # epost" and "list_all eval_batch_ok epre"
    and "eval_batch_raises eb e"
  shows "\<exists>s'. evaluate s edl = Inl (Raised e, s')"
proof -
  let ?s3 = "emit ModelEval (emit NewEvaluator ((emit GetCocoApi s)\<lparr>evaluator := []\<rparr>))"
  from eval_step_raises [OF assms(3)]
  obtain s' where "eval_step eb (?s3\<lparr>trace := trace ?s3 @ concat (map (\<lambda>b. eval_step_events) epre)\<rparr>)
      = Inl (Raised e, s')" by blast
  then have "eval_loop (eval_batches edl) ?s3 = Inl (Raised e, s')"
    by (simp add: assms(1) eval_loop_prefix [OF assms(2)])
  then show ?thesis by (simp add: evaluate_def Let_def)
qed

lemma evaluate_sync_raises:
  assumes "list_all eval_batch_ok (eval_batches edl)"
    and "logger_sync_raises edl = Some e \<or>
         logger_sync_raises edl = None \<and> evaluator_sync_raises edl = Some e"
  shows "\<exists>s'. evaluate s edl = Inl (Raised e, s')"
  using assms(2) by (auto simp add: evaluate_def Let_def eval_loop_ok [OF assms(1)])

lemma train_one_epoch_eval_abort:
  assumes "list_all batch_ok (batches tdl)" and "\<And>s. \<exists>s'. evaluate s edl = Inl (Raised e, s')"
  shows "\<exists>s'. train_one_epoch fl self tdl edl = Inl (Raised e, s')"
proof -
  let ?s3 = "self\<lparr>trace := trace self @ prologue_events self tdl\<rparr>"
  from train_loop_ok [OF assms(1), where lr = "warmup_setup (epoch (training_state self)) tdl"
      and self = ?s3 and fl = fl]
  obtain s4 where l: "train_loop fl (warmup_setup (epoch (training_state self)) tdl) (batches tdl) ?s3
      = Inr s4" by blast
  let ?s5 = "emit LrSchedulerStep s4"
  let ?s6 = "?s5\<lparr>training_state := (training_state ?s5)
               \<lparr>num_trained_samples := num_trained_samples (training_state ?s5)
                    + int (dataset_len tdl)\<rparr>\<rparr>"
  let ?s7 = "?s6\<lparr>training_state := (training_state ?s6)
               \<lparr>no_eval_time := fl (no_eval_time (training_state ?s6)
                    + fl (noeval_end_time tdl - noeval_start_time tdl))\<rparr>\<rparr>"
  from assms(2) [of ?s7] obtain s' where ev: "evaluate ?s7 edl = Inl (Raised e, s')" by blast
  have "train_one_epoch fl self tdl edl = Inl (Raised e, s')"
    unfolding train_one_epoch_unfold l using ev by (simp add: Let_def)
  then show ?thesis by blast
qed

lemma train_one_epoch_returns_iff:
  "(\<exists>self'. train_one_epoch fl self tdl edl = Inr self') \<longleftrightarrow>
     list_all batch_ok (batches tdl) \<and> eval_ok edl \<and> bbox_stats edl \<noteq> []"
proof
  assume "\<exists>self'. train_one_epoch fl self tdl edl = Inr self'"
  then show "list_all batch_ok (batches tdl) \<and> eval_ok edl \<and> bbox_stats edl \<noteq> []"
    using train_one_epoch_Inr by blast
next
  assume h: "list_all batch_ok (batches tdl) \<and> eval_ok edl \<and> bbox_stats edl \<noteq> []"
  then obtain m rest where "bbox_stats edl = m # rest" by (cases "bbox_stats edl") auto
  with h train_one_epoch_ok [where tdl = tdl and edl = edl and m = m and rest = rest and self = self and fl = fl] show "\<exists>self'. train_one_epoch fl self tdl edl = Inr self'"
    by blast
qed

section \<open>Convergence and end of training\<close>

text \<open>
  C1.  In an epoch that runs to its end, the metric stored in the training state is the
  first bbox statistic of the epoch's evaluation, and the converged flag is set exactly
  when that metric is at least the configured target: it is true afterwards if and only
  if it was true before or the metric reaches the target.  So a flag that was false
  becomes true if and only if the metric reaches the target; below the target the call
  does not set it.
\<close>

theorem converged_iff_target_reached:
  assumes "train_one_epoch fl self tdl edl = Inr self'"
  shows "\<exists>m rest. bbox_stats edl = m # rest \<and> eval_mAP (training_state self') = m \<and>
           (converged (training_state self') \<longleftrightarrow>
              converged (training_state self) \<or> float_ge m (target_mAP (config self))) \<and>
           (\<not> converged (training_state self) \<longrightarrow>
              (converged (training_state self') \<longleftrightarrow> float_ge m (target_mAP (config self))))"
proof -
  from assms obtain m rest where st: "bbox_stats edl = m # rest"
    and s': "self' = check_convergence (config self) (epoch (training_state self)) m
                       (trained fl self tdl edl)"
    by (rule train_one_epoch_returns)
  have "eval_mAP (training_state self') = m"
    by (simp add: s' check_convergence_state)
  moreover have "converged (training_state self') \<longleftrightarrow>
      converged (training_state self) \<or> float_ge m (target_mAP (config self))"
    by (simp add: s' check_convergence_state trained_def)
  ultimately show ?thesis using st by auto
qed

theorem converged_iff_target_reached_witness:
  "train_one_epoch no_rounding trainer0 loader0 eval_loader0
     = Inr (final (train_one_epoch no_rounding trainer0 loader0 eval_loader0)) \<and>
   \<not> converged (training_state trainer0) \<and>
   float_ge (Finite 0.36) (target_mAP (config trainer0)) \<and>
   converged (training_state (final (train_one_epoch no_rounding trainer0 loader0 eval_loader0)))"
proof -
  have r: "train_one_epoch no_rounding trainer0 loader0 eval_loader0
             = Inr (final (train_one_epoch no_rounding trainer0 loader0 eval_loader0))"
    by (simp add: train_one_epoch_ok [OF fixtures_ok] final_def)
  from converged_iff_target_reached [OF r] r show ?thesis
    by (simp add: fixtures_ok(3) trainer0_def)
qed



section \<open>Frame properties\<close>

text \<open>
  C7.  No method writes the configuration: after \<open>init\<close>, after \<open>train_one_epoch\<close> and
  after \<open>evaluate\<close>, whether the call returns or is left by an exception, the
  configuration of the trainer is the one it had before.
\<close>

theorem config_never_written:
  "config (init self) = config self \<and>
   config (final (train_one_epoch fl self tdl edl)) = config self \<and>
   config (final (evaluate self edl)) = config self"
proof -
  from train_one_epoch_outcome [where self = self and tdl = tdl and edl = edl and fl = fl]
  have "config (final (train_one_epoch fl self tdl edl)) = config self"
    by (auto simp add: advances_def check_convergence_frame)
  moreover from evaluate_advances [of self edl]
  have "config (final (evaluate self edl)) = config self"
    by (simp add: advances_def)
  ultimately show ?thesis by (simp add: init_def)
qed

text \<open>
  C8.  The two termination flags are one-way.  Whatever the trainer, the loaders and the
  outcome of the call, a converged flag that is set before \<open>train_one_epoch\<close> is set
  after it, and so is an end-of-training flag; this holds for every starting state, hence
  for every later call, whatever the metric and the epoch counter are then.
\<close>

theorem flags_one_way:
  "(converged (training_state self)
      \<longrightarrow> converged (training_state (final (train_one_epoch fl self tdl edl)))) \<and>
   (end_training (training_state self)
      \<longrightarrow> end_training (training_state (final (train_one_epoch fl self tdl edl))))"
  using train_one_epoch_outcome [where self = self and tdl = tdl and edl = edl and fl = fl]
  by (auto simp add: advances_def check_convergence_state)

theorem flags_one_way_witness:
  "converged (training_state trainer_late) \<and> end_training (training_state trainer_late) \<and>
   \<not> float_ge (Finite 0.1) (target_mAP (config trainer_late)) \<and>
   eval_mAP (training_state (final (train_one_epoch no_rounding trainer_late loader0 eval_loader_low)))
     = Finite 0.1 \<and>
   converged (training_state (final (train_one_epoch no_rounding trainer_late loader0 eval_loader_low))) \<and>
   end_training (training_state (final (train_one_epoch no_rounding trainer_late loader0 eval_loader_low)))"
proof -
  have c: "converged (training_state trainer_late)" "end_training (training_state trainer_late)"
    by (simp_all add: trainer_late_def)
  have "eval_mAP (training_state (final (train_one_epoch no_rounding trainer_late loader0 eval_loader_low)))
     = Finite 0.1"
    by (simp add: train_one_epoch_ok [OF fixtures_ok(1) fixtures_low_ok] check_convergence_state)
  with flags_one_way [where self = trainer_late and tdl = loader0 and edl = eval_loader_low
      and fl = no_rounding] c show ?thesis
    by (simp add: trainer_late_def trainer0_def)
qed

section \<open>The accumulators of the training state\<close>

text \<open>
  C5 (as amended).  An epoch that runs to its end adds the length of the training dataset
  to the sample count, whatever the clock reads.  The two time accumulators do not
  decrease when each later reading of the clock is at least the earlier one it is
  subtracted from.  The time accumulators are floats and are added to with float
  arithmetic; what is used of rounding to the nearest float is that it is monotone and
  leaves a float as it is (zero, a rounded number, and the two accumulators at the start
  of the call are floats).
\<close>

theorem accumulators_grow:
  assumes "train_one_epoch fl self tdl edl = Inr self'"
  shows "num_trained_samples (training_state self')
           = num_trained_samples (training_state self) + int (dataset_len tdl) \<and>
         ((\<forall>x y. x \<le> y \<longrightarrow> fl x \<le> fl y) \<and> fl 0 = 0 \<and> (\<forall>x. fl (fl x) = fl x) \<and>
          fl (pure_compute_time (training_state self)) = pure_compute_time (training_state self) \<and>
          fl (no_eval_time (training_state self)) = no_eval_time (training_state self) \<and>
          noeval_start_time tdl \<le> noeval_end_time tdl \<and>
          (\<forall>b\<in>set (batches tdl). pure_compute_start_time b \<le> pure_compute_end_time b)
          \<longrightarrow> pure_compute_time (training_state self)
                 \<le> pure_compute_time (training_state self') \<and>
               no_eval_time (training_state self) \<le> no_eval_time (training_state self'))"
proof -
  from assms(1) obtain m rest where
    s': "self' = check_convergence (config self) (epoch (training_state self)) m
                   (trained fl self tdl edl)"
    by (rule train_one_epoch_returns)
  have n: "num_trained_samples (training_state self')
           = num_trained_samples (training_state self) + int (dataset_len tdl)"
    by (simp add: s' check_convergence_state trained_def)
  have t: "pure_compute_time (training_state self)
             \<le> pure_compute_time (training_state self') \<and>
           no_eval_time (training_state self) \<le> no_eval_time (training_state self')"
    if mono: "\<forall>x y. x \<le> y \<longrightarrow> fl x \<le> fl y" and zero: "fl 0 = 0"
      and idem: "\<forall>x. fl (fl x) = fl x"
      and p: "fl (pure_compute_time (training_state self)) = pure_compute_time (training_state self)"
      and e: "fl (no_eval_time (training_state self)) = no_eval_time (training_state self)"
      and c: "noeval_start_time tdl \<le> noeval_end_time tdl"
      and b: "\<forall>b\<in>set (batches tdl). pure_compute_start_time b \<le> pure_compute_end_time b"
  proof -
    have 1: "pure_compute_time (training_state self)
               \<le> compute_time fl (pure_compute_time (training_state self)) (batches tdl)"
      by (rule compute_time_ge [OF mono zero idem p b])
    from c mono zero have "0 \<le> fl (noeval_end_time tdl - noeval_start_time tdl)"
      by (metis diff_ge_0_iff_ge)
    then have "no_eval_time (training_state self)
        \<le> no_eval_time (training_state self)
             + fl (noeval_end_time tdl - noeval_start_time tdl)" by simp
    with mono e have 2: "no_eval_time (training_state self)
        \<le> fl (no_eval_time (training_state self)
                + fl (noeval_end_time tdl - noeval_start_time tdl))" by metis
    from 1 2 show ?thesis by (simp add: s' check_convergence_state trained_def)
  qed
  from n t show ?thesis by blast
qed

theorem accumulators_grow_witness:
  "train_one_epoch no_rounding trainer0 loader0 eval_loader0
     = Inr (final (train_one_epoch no_rounding trainer0 loader0 eval_loader0)) \<and>
   noeval_start_time loader0 \<le> noeval_end_time loader0 \<and>
   list_all (\<lambda>b. pure_compute_start_time b \<le> pure_compute_end_time b) (batches loader0) \<and>
   num_trained_samples (training_state trainer0) = 0 \<and>
   num_trained_samples
     (training_state (final (train_one_epoch no_rounding trainer0 loader0 eval_loader0))) = 4 \<and>
   pure_compute_time (training_state trainer0)
     \<le> pure_compute_time
         (training_state (final (train_one_epoch no_rounding trainer0 loader0 eval_loader0))) \<and>
   no_eval_time (training_state trainer0)
     \<le> no_eval_time
         (training_state (final (train_one_epoch no_rounding trainer0 loader0 eval_loader0)))"
proof -
  have r: "train_one_epoch no_rounding trainer0 loader0 eval_loader0
             = Inr (final (train_one_epoch no_rounding trainer0 loader0 eval_loader0))"
    by (simp add: train_one_epoch_ok [OF fixtures_ok])
  have f: "\<forall>x y. x \<le> y \<longrightarrow> no_rounding x \<le> no_rounding y" "no_rounding 0 = 0"
    "\<forall>x. no_rounding (no_rounding x) = no_rounding x"
    "no_rounding (pure_compute_time (training_state trainer0))
       = pure_compute_time (training_state trainer0)"
    "no_rounding (no_eval_time (training_state trainer0))
       = no_eval_time (training_state trainer0)"
    by (simp_all add: no_rounding_def)
  have t: "noeval_start_time loader0 \<le> noeval_end_time loader0"
    by (simp add: loader0_def)
  have b: "\<forall>b\<in>set (batches loader0). pure_compute_start_time b \<le> pure_compute_end_time b"
    by (simp add: loader0_def batch_fine_def batch_fine2_def)
  have l: "dataset_len loader0 = 4" "num_trained_samples (training_state trainer0) = 0"
    by (simp_all add: loader0_def trainer0_def)
  from accumulators_grow [OF r] f t b l
  have "num_trained_samples
     (training_state (final (train_one_epoch no_rounding trainer0 loader0 eval_loader0))) = 4 \<and>
   pure_compute_time (training_state trainer0)
     \<le> pure_compute_time
         (training_state (final (train_one_epoch no_rounding trainer0 loader0 eval_loader0))) \<and>
   no_eval_time (training_state trainer0)
     \<le> no_eval_time
         (training_state (final (train_one_epoch no_rounding trainer0 loader0 eval_loader0)))"
    by simp
  with r t b l show ?thesis by (simp add: list_all_iff)
qed

text \<open>
  The clock condition is needed: \<^verbatim>\<open>time.time()\<close> is the wall clock, which can be set back.
  With a reading of 20 at line 60 and of 14 at line 110 of an epoch that returns, the
  no-evaluation time falls from 0 to -6 (both the difference and the sum are exact in
  floats).
\<close>

theorem accumulator_decreases_counterexample:
  "train_one_epoch no_rounding trainer0 loader_clock_back eval_loader0
     = Inr (final (train_one_epoch no_rounding trainer0 loader_clock_back eval_loader0)) \<and>
   no_eval_time (training_state trainer0) = 0 \<and>
   no_eval_time
     (training_state (final (train_one_epoch no_rounding trainer0 loader_clock_back eval_loader0)))
     = - 6"
proof -
  have ok: "list_all batch_ok (batches loader_clock_back)"
    using fixtures_ok(1) by (simp add: loader_clock_back_def)
  have r: "train_one_epoch no_rounding trainer0 loader_clock_back eval_loader0
             = Inr (check_convergence (config trainer0) (epoch (training_state trainer0))
                      (Finite 0.36) (trained no_rounding trainer0 loader_clock_back eval_loader0))"
    by (rule train_one_epoch_ok [OF ok fixtures_ok(2,3)])
  show ?thesis unfolding r
    by (simp add: check_convergence_state trained_def loader_clock_back_def loader0_def
          trainer0_def no_rounding_def)
qed

section \<open>The order of training, scheduler step and evaluation\<close>

text \<open>
  C4.  A call of \<open>train_one_epoch\<close> that returns has run the evaluation exactly once:
  its events are those of the training loop, with one forward and one backward pass for
  each batch of the loader, then the step of the epoch-level scheduler, then the events of
  one evaluation from \<^verbatim>\<open>get_coco_api_from_dataset\<close> to \<^verbatim>\<open>summarize\<close>, then the print of the
  metric and of the convergence message.  Neither the scheduler step nor the start or the
  end of an evaluation occurs anywhere else, and no training event follows the scheduler
  step.  The metric stored in the training state is the first bbox statistic of that
  evaluation, and it is the value the convergence check compares with the target.
\<close>

theorem evaluation_once_after_training:
  assumes "train_one_epoch fl self tdl edl = Inr self'"
  shows "\<exists>pre mid post m rest.
           trace self' = trace self @ pre @ [LrSchedulerStep, GetCocoApi] @ mid @ [Summarize] @ post \<and>
           count_list pre Forward = length (batches tdl) \<and>
           count_list pre Backward = length (batches tdl) \<and>
           set (pre @ mid @ post) \<inter> {LrSchedulerStep, GetCocoApi, Summarize} = {} \<and>
           set (mid @ post) \<inter> {Forward, Backward, WarmupStep} = {} \<and>
           bbox_stats edl = m # rest \<and>
           evaluator self' = bbox_stats edl \<and>
           eval_mAP (training_state self') = m \<and>
           post = PrintMAP m #
             (if float_ge m (target_mAP (config self))
              then [PrintConverged m (target_mAP (config self))] else []) \<and>
           (converged (training_state self') \<longleftrightarrow>
              converged (training_state self) \<or> float_ge m (target_mAP (config self)))"
proof -
  from assms obtain m rest where st: "bbox_stats edl = m # rest"
    and s': "self' = check_convergence (config self) (epoch (training_state self)) m
                       (trained fl self tdl edl)"
    by (rule train_one_epoch_returns)
  let ?lr = "warmup_setup (epoch (training_state self)) tdl"
  let ?pre = "prologue_events self tdl @ concat (map (\<lambda>b. step_events ?lr) (batches tdl))"
  let ?mid = "[NewEvaluator, ModelEval]
              @ concat (map (\<lambda>b. eval_step_events) (eval_batches edl))
              @ [LoggerSynchronize, PrintAveragedStats, EvaluatorSynchronize, Accumulate]"
  let ?post = "PrintMAP m #
             (if float_ge m (target_mAP (config self))
              then [PrintConverged m (target_mAP (config self))] else [])"
  have tr: "trace self' = trace self @ ?pre @ [LrSchedulerStep, GetCocoApi] @ ?mid @ [Summarize] @ ?post"
    by (simp add: s' check_convergence_trace trained_def)
  have c1: "count_list ?pre Forward = length (batches tdl)"
    by (simp only: count_list_append count_list_concat_const prologue_count step_count) simp
  have c2: "count_list ?pre Backward = length (batches tdl)"
    by (simp only: count_list_append count_list_concat_const prologue_count step_count) simp
  have d1: "set (?pre @ ?mid @ ?post) \<inter> {LrSchedulerStep, GetCocoApi, Summarize} = {}"
    by (auto split: option.splits if_splits)
  have d2: "set (?mid @ ?post) \<inter> {Forward, Backward, WarmupStep} = {}"
    by (auto split: if_splits)
  have e: "evaluator self' = bbox_stats edl" "eval_mAP (training_state self') = m"
    "converged (training_state self') \<longleftrightarrow>
              converged (training_state self) \<or> float_ge m (target_mAP (config self))"
    by (simp_all add: s' check_convergence_state check_convergence_frame trained_def)
  from tr c1 c2 d1 d2 st e show ?thesis by blast
qed

theorem evaluation_once_after_training_witness:
  "train_one_epoch no_rounding trainer0 loader0 eval_loader0
     = Inr (final (train_one_epoch no_rounding trainer0 loader0 eval_loader0)) \<and>
   eval_mAP (training_state (final (train_one_epoch no_rounding trainer0 loader0 eval_loader0)))
     = Finite 0.36 \<and>
   evaluator (final (train_one_epoch no_rounding trainer0 loader0 eval_loader0))
     = [Finite 0.36, Finite 0.5] \<and>
   trace (final (train_one_epoch no_rounding trainer0 loader0 eval_loader0)) =
     [SetEpoch 0, ModelTrain, WarmupCreate 1 (1 / 1000),
      Forward, ReduceDict, Backward, WarmupStep,
      Forward, ReduceDict, Backward, WarmupStep,
      LrSchedulerStep,
      GetCocoApi, NewEvaluator, ModelEval, CudaSynchronize, EvalForward, EvaluatorUpdate,
      LoggerSynchronize, PrintAveragedStats, EvaluatorSynchronize, Accumulate, Summarize,
      PrintMAP (Finite 0.36), PrintConverged (Finite 0.36) (Finite 0.35)]"
proof -
  let ?r = "final (train_one_epoch no_rounding trainer0 loader0 eval_loader0)"
  have r: "train_one_epoch no_rounding trainer0 loader0 eval_loader0 = Inr ?r"
    by (simp add: train_one_epoch_ok [OF fixtures_ok])
  from evaluation_once_after_training [OF r]
  have e: "evaluator ?r = bbox_stats eval_loader0"
    "eval_mAP (training_state ?r) = Finite 0.36"
    by (auto simp add: fixtures_ok(3))
  have t: "trace ?r =
     [SetEpoch 0, ModelTrain, WarmupCreate 1 (1 / 1000),
      Forward, ReduceDict, Backward, WarmupStep,
      Forward, ReduceDict, Backward, WarmupStep,
      LrSchedulerStep,
      GetCocoApi, NewEvaluator, ModelEval, CudaSynchronize, EvalForward, EvaluatorUpdate,
      LoggerSynchronize, PrintAveragedStats, EvaluatorSynchronize, Accumulate, Summarize,
      PrintMAP (Finite 0.36), PrintConverged (Finite 0.36) (Finite 0.35)]"
    unfolding train_one_epoch_ok [OF fixtures_ok]
    by (simp add: check_convergence_trace trained_def warmup_setup_def trainer0_def loader0_def
          eval_loader0_def)
  from r e t show ?thesis by (simp add: fixtures_ok(3))
qed

section \<open>The warm-up scheduler\<close>

text \<open>
  C9.  Whatever the outcome of the call, a warm-up scheduler is created only in epoch 0,
  once, with \<open>min 1000 (number of batches - 1)\<close> iterations and factor 1/1000, and a
  warm-up step occurs only in epoch 0.  In a call that returns, the epoch-level scheduler
  steps exactly once, and the warm-up scheduler steps once for each batch in epoch 0 and
  never in any other epoch.
\<close>

theorem warmup_only_in_first_epoch:
  "\<exists>new. trace (final (train_one_epoch fl self tdl edl)) = trace self @ new \<and>
     (\<forall>i f. WarmupCreate i f \<in> set new \<longrightarrow>
        epoch (training_state self) = 0 \<and>
        i = min 1000 (int (length (batches tdl)) - 1) \<and> f = 1 / 1000) \<and>
     (WarmupStep \<in> set new \<longrightarrow> epoch (training_state self) = 0) \<and>
     (epoch (training_state self) = 0 \<longrightarrow>
        count_list new (WarmupCreate (min 1000 (int (length (batches tdl)) - 1)) (1 / 1000)) = 1) \<and>
     (\<forall>self'. train_one_epoch fl self tdl edl = Inr self' \<longrightarrow>
        count_list new LrSchedulerStep = 1 \<and>
        count_list new WarmupStep
          = (if epoch (training_state self) = 0 then length (batches tdl) else 0))"
proof -
  let ?ep = "epoch (training_state self)"
  let ?fin = "final (train_one_epoch fl self tdl edl)"
  let ?W = "WarmupCreate (min 1000 (int (length (batches tdl)) - 1)) (1 / 1000)"
  from train_one_epoch_outcome [where self = self and tdl = tdl and edl = edl and fl = fl]
  obtain s where adv: "advances (?ep = 0) (self\<lparr>trace := trace self @ prologue_events self tdl\<rparr>) s"
    and fin: "?fin = s \<or> (\<exists>m. ?fin = check_convergence (config self) ?ep m s)"
    by blast
  from adv obtain new1 where n1: "trace s = trace self @ prologue_events self tdl @ new1"
    "\<forall>i f. WarmupCreate i f \<notin> set new1" "?ep \<noteq> 0 \<longrightarrow> WarmupStep \<notin> set new1"
    unfolding advances_def by auto
  from fin obtain tail where tl: "trace ?fin = trace s @ tail"
    "\<forall>i f. WarmupCreate i f \<notin> set tail" "WarmupStep \<notin> set tail"
    by (auto simp add: check_convergence_trace)
  let ?new = "prologue_events self tdl @ new1 @ tail"
  have tr: "trace ?fin = trace self @ ?new" using n1(1) tl(1) by simp
  have a: "\<forall>i f. WarmupCreate i f \<in> set ?new \<longrightarrow>
        ?ep = 0 \<and> i = min 1000 (int (length (batches tdl)) - 1) \<and> f = 1 / 1000"
    using n1(2) tl(2) by (auto simp add: warmup_setup_def Let_def split: if_splits)
  have b: "WarmupStep \<in> set ?new \<longrightarrow> ?ep = 0"
    using n1(3) tl(3) by (auto simp add: warmup_setup_def Let_def split: if_splits)
  have c0: "count_list new1 ?W = 0" "count_list tail ?W = 0"
    using n1(2) tl(2) by (simp_all add: count_list_0_iff)
  have c: "?ep = 0 \<longrightarrow> count_list ?new ?W = 1"
    using c0 by (simp add: warmup_setup_def Let_def)
  have d: "\<forall>self'. train_one_epoch fl self tdl edl = Inr self' \<longrightarrow>
        count_list ?new LrSchedulerStep = 1 \<and>
        count_list ?new WarmupStep = (if ?ep = 0 then length (batches tdl) else 0)"
  proof (intro allI impI)
    fix self' assume r: "train_one_epoch fl self tdl edl = Inr self'"
    then obtain m rest where
      s': "self' = check_convergence (config self) ?ep m (trained fl self tdl edl)"
      by (rule train_one_epoch_returns)
    let ?lr = "warmup_setup ?ep tdl"
    let ?X = "prologue_events self tdl @ concat (map (\<lambda>b. step_events ?lr) (batches tdl))
              @ [LrSchedulerStep] @ eval_events edl @ PrintMAP m #
                (if float_ge m (target_mAP (config self))
                 then [PrintConverged m (target_mAP (config self))] else [])"
    have "trace ?fin = trace self @ ?X"
      by (simp add: r s' check_convergence_trace trained_def)
    with tr have eq: "?new = ?X" by simp
    have "count_list ?X LrSchedulerStep = 1"
      by (simp add: count_list_concat_const warmup_setup_def Let_def)
    moreover have "count_list ?X WarmupStep = (if ?ep = 0 then length (batches tdl) else 0)"
      by (simp add: count_list_concat_const warmup_setup_def Let_def)
    ultimately show "count_list ?new LrSchedulerStep = 1 \<and>
        count_list ?new WarmupStep = (if ?ep = 0 then length (batches tdl) else 0)"
      unfolding eq by simp
  qed
  from tr a b c d show ?thesis by blast
qed

theorem warmup_only_in_first_epoch_witness:
  "epoch (training_state trainer_late) \<noteq> 0 \<and>
   WarmupStep \<notin> set (trace (final (train_one_epoch no_rounding trainer_late loader0 eval_loader_low))) \<and>
   epoch (training_state trainer0) = 0 \<and>
   train_one_epoch no_rounding trainer0 loader0 eval_loader0
     = Inr (final (train_one_epoch no_rounding trainer0 loader0 eval_loader0)) \<and>
   count_list (trace (final (train_one_epoch no_rounding trainer0 loader0 eval_loader0)))
     (WarmupCreate 1 (1 / 1000)) = 1 \<and>
   count_list (trace (final (train_one_epoch no_rounding trainer0 loader0 eval_loader0))) WarmupStep = 2"
proof -
  have l: "epoch (training_state trainer_late) \<noteq> 0" "trace trainer_late = []"
    by (simp_all add: trainer_late_def trainer0_def)
  from warmup_only_in_first_epoch [of no_rounding trainer_late loader0 eval_loader_low] l
  have 1: "WarmupStep \<notin> set (trace (final (train_one_epoch no_rounding trainer_late loader0 eval_loader_low)))"
    by auto
  have z: "epoch (training_state trainer0) = 0" "trace trainer0 = []"
    "min 1000 (int (length (batches loader0)) - 1) = 1"
    by (simp_all add: trainer0_def loader0_def)
  have r: "train_one_epoch no_rounding trainer0 loader0 eval_loader0
             = Inr (final (train_one_epoch no_rounding trainer0 loader0 eval_loader0))"
    by (simp add: train_one_epoch_ok [OF fixtures_ok])
  have n: "length (batches loader0) = 2" by (simp add: loader0_def)
  from warmup_only_in_first_epoch [of no_rounding trainer0 loader0 eval_loader0] r
  have 2: "count_list (trace (final (train_one_epoch no_rounding trainer0 loader0 eval_loader0)))
     (WarmupCreate 1 (1 / 1000)) = 1 \<and>
   count_list (trace (final (train_one_epoch no_rounding trainer0 loader0 eval_loader0))) WarmupStep = 2"
    unfolding z n by auto
  from l 1 z r 2 show ?thesis by simp
qed

section \<open>Non-finite losses and exceptions\<close>

text \<open>
  C3.  If the batches before \<open>b\<close> are processed normally and \<open>b\<close> is loaded, passed
  forward and reduced without an exception but its reduced loss is not finite, the call
  is left by \<^verbatim>\<open>sys.exit(1)\<close>.  The last events are the forward pass and the reduction of
  \<open>b\<close> and the two prints, of the loss value and of the reduced loss dictionary; before
  them there is one forward and one backward pass for each earlier batch and at most one
  warm-up step for each, so no backward pass and no scheduler step is made for \<open>b\<close> or
  for a later batch; the epoch-level scheduler does not step and no evaluation starts.
\<close>

theorem nonfinite_loss_exits:
  assumes "batches tdl = pre @ b # post" and "list_all batch_ok pre"
    and "load_raises b = None" and "forward_raises b = None" and "reduce_raises b = None"
    and "\<not> isfinite (loss_value b)"
  shows "\<exists>s new. train_one_epoch fl self tdl edl = Inl (SystemExit 1, s) \<and>
           trace s = trace self @ new
             @ [Forward, ReduceDict, PrintLoss (loss_value b),
                PrintLossDict (loss_dict_reduced b)] \<and>
           count_list new Forward = length pre \<and>
           count_list new Backward = length pre \<and>
           count_list new WarmupStep \<le> length pre \<and>
           set new \<inter> {LrSchedulerStep, GetCocoApi, Summarize} = {} \<and>
           training_state s = (training_state self)
             \<lparr>pure_compute_time := compute_time fl (pure_compute_time (training_state self)) pre\<rparr>"
proof -
  let ?lr = "warmup_setup (epoch (training_state self)) tdl"
  let ?new = "prologue_events self tdl @ concat (map (\<lambda>b. step_events ?lr) pre)"
  let ?S = "self\<lparr>trace := trace self @ ?new,
                 training_state := (training_state self)
                   \<lparr>pure_compute_time := compute_time fl (pure_compute_time (training_state self)) pre\<rparr>\<rparr>"
  let ?s = "?S\<lparr>trace := trace ?S @ [Forward, ReduceDict, PrintLoss (loss_value b),
                                  PrintLossDict (loss_dict_reduced b)]\<rparr>"
  have "train_step fl ?lr b ?S = Inl (SystemExit 1, ?s)"
    by (rule train_step_nonfinite [OF assms(3-6)])
  then have r: "train_one_epoch fl self tdl edl = Inl (SystemExit 1, ?s)"
    using train_one_epoch_loop_abort [OF assms(1,2), where self = self and err = "(SystemExit 1, ?s)"
        and edl = edl and fl = fl] by simp
  have t: "trace ?s = trace self @ ?new
             @ [Forward, ReduceDict, PrintLoss (loss_value b), PrintLossDict (loss_dict_reduced b)]"
    by simp
  have c1: "count_list ?new Forward = length pre"
    by (simp add: count_list_concat_const)
  have c2: "count_list ?new Backward = length pre"
    by (simp add: count_list_concat_const)
  have c3: "count_list ?new WarmupStep \<le> length pre"
    by (cases ?lr) (simp_all add: count_list_concat_const)
  have d: "set ?new \<inter> {LrSchedulerStep, GetCocoApi, Summarize} = {}"
    by (auto split: option.splits if_splits)
  have ts: "training_state ?s = (training_state self)
             \<lparr>pure_compute_time := compute_time fl (pure_compute_time (training_state self)) pre\<rparr>"
    by simp
  from r t c1 c2 c3 d ts show ?thesis by blast
qed

theorem nonfinite_loss_exits_witness:
  "batches loader_nan = [batch_fine] @ batch_nan # [batch_fine] \<and>
   list_all batch_ok [batch_fine] \<and>
   \<not> isfinite (loss_value batch_nan) \<and>
   train_one_epoch no_rounding trainer0 loader_nan eval_loader0
     = Inl (SystemExit 1, final (train_one_epoch no_rounding trainer0 loader_nan eval_loader0)) \<and>
   count_list (trace (final (train_one_epoch no_rounding trainer0 loader_nan eval_loader0))) Forward = 2 \<and>
   count_list (trace (final (train_one_epoch no_rounding trainer0 loader_nan eval_loader0))) Backward = 1 \<and>
   LrSchedulerStep \<notin> set (trace (final (train_one_epoch no_rounding trainer0 loader_nan eval_loader0)))"
proof -
  have h: "batches loader_nan = [batch_fine] @ batch_nan # [batch_fine]"
    "list_all batch_ok [batch_fine]"
    "load_raises batch_nan = None" "forward_raises batch_nan = None"
    "reduce_raises batch_nan = None" "\<not> isfinite (loss_value batch_nan)"
    by (simp_all add: loader_nan_def loader0_def batch_nan_def batch_fine_def batch_ok_def)
  have t: "trace trainer0 = []" by (simp add: trainer0_def)
  from nonfinite_loss_exits [OF h, where self = trainer0 and edl = eval_loader0 and fl = no_rounding]
  obtain s new where r: "train_one_epoch no_rounding trainer0 loader_nan eval_loader0 = Inl (SystemExit 1, s)"
    and tr: "trace s = new @ [Forward, ReduceDict, PrintLoss (loss_value batch_nan),
                PrintLossDict (loss_dict_reduced batch_nan)]"
    and c: "count_list new Forward = 1" "count_list new Backward = 1"
      "set new \<inter> {LrSchedulerStep, GetCocoApi, Summarize} = {}"
    unfolding t by auto
  from c(3) have "LrSchedulerStep \<notin> set new" by blast
  with r tr c h show ?thesis by simp
qed

text \<open>
  C6.  No exception is caught.  If the first failing call of the training loop raises
  \<open>e\<close> (loading, forward pass, reduction across processes, or backward pass), the call of
  \<open>train_one_epoch\<close> is left by \<open>e\<close>.  If the first failing call of an evaluation
  raises \<open>e\<close> (loading, forward pass, or one of the two synchronisations across
  processes), \<open>evaluate\<close> is left by \<open>e\<close>, and so is \<open>train_one_epoch\<close> when its
  training loop has run through.  Conversely, a call that returns has met no exception and
  no non-finite loss.
\<close>

theorem exceptions_propagate:
  "(batches tdl = pre @ b # post \<and> list_all batch_ok pre \<and> batch_raises b e
      \<longrightarrow> (\<exists>s. train_one_epoch fl self tdl edl = Inl (Raised e, s))) \<and>
   (eval_batches edl = epre @ eb # epost \<and> list_all eval_batch_ok epre \<and> eval_batch_raises eb e
      \<longrightarrow> (\<exists>s. evaluate self edl = Inl (Raised e, s)) \<and>
          (list_all batch_ok (batches tdl)
             \<longrightarrow> (\<exists>s. train_one_epoch fl self tdl edl = Inl (Raised e, s)))) \<and>
   (list_all eval_batch_ok (eval_batches edl) \<and>
    (logger_sync_raises edl = Some e \<or>
     logger_sync_raises edl = None \<and> evaluator_sync_raises edl = Some e)
      \<longrightarrow> (\<exists>s. evaluate self edl = Inl (Raised e, s)) \<and>
          (list_all batch_ok (batches tdl)
             \<longrightarrow> (\<exists>s. train_one_epoch fl self tdl edl = Inl (Raised e, s)))) \<and>
   (\<forall>self'. train_one_epoch fl self tdl edl = Inr self'
      \<longrightarrow> list_all batch_ok (batches tdl) \<and> eval_ok edl) \<and>
   (\<forall>self'. evaluate self edl = Inr self' \<longrightarrow> eval_ok edl)"
proof (intro conjI impI allI)
  assume h: "batches tdl = pre @ b # post \<and> list_all batch_ok pre \<and> batch_raises b e"
  let ?lr = "warmup_setup (epoch (training_state self)) tdl"
  let ?S = "self\<lparr>trace := trace self @ prologue_events self tdl
                     @ concat (map (\<lambda>b. step_events ?lr) pre),
                 training_state := (training_state self)
                   \<lparr>pure_compute_time := compute_time fl (pure_compute_time (training_state self)) pre\<rparr>\<rparr>"
  from h train_step_raises [where b = b and e = e and lr = ?lr and s = ?S and fl = fl] obtain s' where
    "train_step fl ?lr b ?S = Inl (Raised e, s')" by blast
  from train_one_epoch_loop_abort [OF _ _ this] h
  show "\<exists>s. train_one_epoch fl self tdl edl = Inl (Raised e, s)" by blast
next
  assume h: "eval_batches edl = epre @ eb # epost \<and> list_all eval_batch_ok epre
             \<and> eval_batch_raises eb e"
  then show "\<exists>s. evaluate self edl = Inl (Raised e, s)"
    using evaluate_batch_raises by blast
next
  assume h: "eval_batches edl = epre @ eb # epost \<and> list_all eval_batch_ok epre
             \<and> eval_batch_raises eb e"
    and ok: "list_all batch_ok (batches tdl)"
  from h have "\<And>s. \<exists>s'. evaluate s edl = Inl (Raised e, s')"
    using evaluate_batch_raises by blast
  from train_one_epoch_eval_abort [OF ok this]
  show "\<exists>s. train_one_epoch fl self tdl edl = Inl (Raised e, s)" .
next
  assume h: "list_all eval_batch_ok (eval_batches edl) \<and>
    (logger_sync_raises edl = Some e \<or>
     logger_sync_raises edl = None \<and> evaluator_sync_raises edl = Some e)"
  then show "\<exists>s. evaluate self edl = Inl (Raised e, s)"
    using evaluate_sync_raises by blast
next
  assume h: "list_all eval_batch_ok (eval_batches edl) \<and>
    (logger_sync_raises edl = Some e \<or>
     logger_sync_raises edl = None \<and> evaluator_sync_raises edl = Some e)"
    and ok: "list_all batch_ok (batches tdl)"
  from h have "\<And>s. \<exists>s'. evaluate s edl = Inl (Raised e, s')"
    using evaluate_sync_raises by blast
  from train_one_epoch_eval_abort [OF ok this]
  show "\<exists>s. train_one_epoch fl self tdl edl = Inl (Raised e, s)" .
next
  fix self' assume "train_one_epoch fl self tdl edl = Inr self'"
  from train_one_epoch_Inr [OF this] show "list_all batch_ok (batches tdl)" by simp
next
  fix self' assume "train_one_epoch fl self tdl edl = Inr self'"
  from train_one_epoch_Inr [OF this] show "eval_ok edl" by simp
next
  fix self' assume "evaluate self edl = Inr self'"
  then show "eval_ok edl" by (rule evaluate_Inr_ok)
qed

theorem exceptions_propagate_witness:
  "batches loader_oom = [batch_fine] @ batch_oom # [batch_fine] \<and>
   list_all batch_ok [batch_fine] \<and>
   batch_raises batch_oom ''OutOfMemoryError'' \<and>
   train_one_epoch no_rounding trainer0 loader_oom eval_loader0
     = Inl (Raised ''OutOfMemoryError'',
            final (train_one_epoch no_rounding trainer0 loader_oom eval_loader0)) \<and>
   list_all eval_batch_ok (eval_batches eval_loader_sync_fails) \<and>
   logger_sync_raises eval_loader_sync_fails = None \<and>
   evaluator_sync_raises eval_loader_sync_fails = Some ''DistBackendError'' \<and>
   list_all batch_ok (batches loader0) \<and>
   evaluate trainer0 eval_loader_sync_fails
     = Inl (Raised ''DistBackendError'', final (evaluate trainer0 eval_loader_sync_fails)) \<and>
   train_one_epoch no_rounding trainer0 loader0 eval_loader_sync_fails
     = Inl (Raised ''DistBackendError'',
            final (train_one_epoch no_rounding trainer0 loader0 eval_loader_sync_fails))"
proof -
  have h1: "batches loader_oom = [batch_fine] @ batch_oom # [batch_fine]"
    "list_all batch_ok [batch_fine]" "batch_raises batch_oom ''OutOfMemoryError''"
    by (simp_all add: loader_oom_def loader0_def batch_oom_def batch_fine_def batch_ok_def
          batch_raises_def)
  have h2: "list_all eval_batch_ok (eval_batches eval_loader_sync_fails)"
    "logger_sync_raises eval_loader_sync_fails = None"
    "evaluator_sync_raises eval_loader_sync_fails = Some ''DistBackendError''"
    by (simp_all add: eval_loader_sync_fails_def eval_loader0_def eval_batch_ok_def)
  note ok = fixtures_ok(1)
  from exceptions_propagate [where tdl = loader_oom and pre = "[batch_fine]" and b = batch_oom
      and post = "[batch_fine]" and e = "''OutOfMemoryError''" and self = trainer0
      and edl = eval_loader0 and fl = no_rounding] h1
  obtain s1 where r1: "train_one_epoch no_rounding trainer0 loader_oom eval_loader0
      = Inl (Raised ''OutOfMemoryError'', s1)" by blast
  from exceptions_propagate [where tdl = loader0 and e = "''DistBackendError''" and self = trainer0
      and edl = eval_loader_sync_fails and fl = no_rounding] h2 ok
  obtain s2 s3 where r2: "evaluate trainer0 eval_loader_sync_fails
      = Inl (Raised ''DistBackendError'', s2)"
    and r3: "train_one_epoch no_rounding trainer0 loader0 eval_loader_sync_fails
      = Inl (Raised ''DistBackendError'', s3)" by blast
  from h1 h2 ok r1 r2 r3 show ?thesis by simp
qed

section \<open>The GPT-3 configuration\<close>

text \<open>
  C10.  The configuration declares 188 warm-up steps and a run of 100 steps: the warm-up
  is longer than the run, so every step of the run, from the first to step
  \<open>max_steps\<close>, lies before the end of the warm-up and the cosine decay that follows the
  warm-up is never reached.
\<close>

theorem warmup_longer_than_run:
  "max_steps = 100 \<and> warmup_steps = 188 \<and> max_steps < warmup_steps \<and>
   (\<forall>step. step \<le> max_steps \<longrightarrow> step < warmup_steps)"
  by (simp add: max_steps_def warmup_steps_def)

theorem warmup_longer_than_run_witness:
  "(100::int) \<le> max_steps \<and> (100::int) < warmup_steps"
  using warmup_longer_than_run by simp

end
